theory Spec2Isabelle
  imports Complex_Main "HOL-Library.Multiset"
begin

section \<open>Data model (package store)\<close>

text \<open>
  Go's \<open>int\<close> and \<open>int64\<close> identities are modelled as \<open>int\<close>: the program performs no
  arithmetic on them. \<open>float64\<close> is modelled as \<open>real\<close>: the program only stores and
  returns the weight. A nil pointer (\<open>*int\<close>, \<open>*float64\<close>, \<open>*string\<close>) is \<open>None\<close>.
\<close>

type_synonym float64 = real

text \<open>
  \<open>WorkoutEntry\<close>. The Go field \<open>ID\<close> is named \<open>EntryID\<close> here, because the record
  \<open>Workout\<close> below has a field \<open>ID\<close> as well.
\<close>

record WorkoutEntry =
  EntryID :: int
  ExerciseName :: string
  Sets :: int
  Reps :: "int option"
  DurationSeconds :: "int option"
  Weight :: "float64 option"
  Notes :: string
  OrderIndex :: int

text \<open>
  \<open>Workout\<close>. The field \<open>UserID\<close> is the one \<open>HandleCreateWorkout\<close> assigns
  (\<open>workout.UserID = currentUser.ID\<close>); the struct declaration of the store file does not
  list it, and no function of the store reads it.
\<close>

record Workout =
  ID :: int
  Title :: string
  Description :: string
  DurationMinutes :: int
  CaloriesBurned :: int
  UserID :: int
  Entries :: "WorkoutEntry list"

datatype error = ErrNoRows | ErrConnDone | DBError string

section \<open>The database\<close>

text \<open>
  The two tables of the relational schema, a row per record, in insertion order, and the
  two sequences that assign identities. The table declarations are not among the sources,
  so what they alone decide is a parameter of the database:
  \<^item> \<open>user_id_default\<close> is the value that column \<open>user_id\<close> takes in a row whose \<open>INSERT\<close>
    does not list the column (where the schema has no such value the \<open>INSERT\<close> is a
    statement that fails, see \<open>faults\<close>);
  \<^item> \<open>tie_order\<close> is the key by which the database happens to order rows that an
    \<open>ORDER BY\<close> leaves in no order.
  No operation changes either.
\<close>

record workouts_row =
  w_id :: int
  title :: string
  description :: string
  duration_minutes :: int
  calories_burned :: int
  user_id :: int

record workout_entries_row =
  e_id :: int
  workout_id :: int
  exercise_name :: string
  sets_col :: int
  reps :: "int option"
  duration_seconds :: "int option"
  weight :: "float64 option"
  notes_col :: string
  order_index :: int

record db =
  workouts :: "workouts_row list"
  workout_entries :: "workout_entries_row list"
  workouts_id_seq :: int
  workout_entries_id_seq :: int
  user_id_default :: int
  tie_order :: "workout_entries_row \<Rightarrow> int"

text \<open>
  What the database and the connection do wrong is an input of the model: a value of
  \<open>faults\<close> says which call fails and with which error. Statements of one transaction are
  numbered from 0 in the order in which the function issues them.
\<close>

record faults =
  begin_err :: "error option"
  stmt_err :: "nat \<Rightarrow> error option"
  rows_affected_err :: "error option"
  commit_err :: "error option"
  queryrow_err :: "error option"
  query_err :: "error option"
  next_err :: "nat \<Rightarrow> error option"
  scan_err :: "nat \<Rightarrow> error option"
  owner_err :: "error option"
  delete_err :: "error option"

definition no_faults :: faults where
  "no_faults = \<lparr>begin_err = None, stmt_err = (\<lambda>_. None), rows_affected_err = None,
     commit_err = None, queryrow_err = None, query_err = None, next_err = (\<lambda>_. None),
     scan_err = (\<lambda>_. None), owner_err = None, delete_err = None\<rparr>"

subsection \<open>SQL statements\<close>

text \<open>
  \<open>INSERT INTO workouts (title, description, duration_minutes, calories_burned)
  VALUES ($1, $2, $3, $4) RETURNING id\<close>: the new row takes the next value of the
  sequence, which is returned; \<open>user_id\<close> is not among the columns, so the row has the
  schema's value for it.
\<close>

definition insert_workout :: "db \<Rightarrow> string \<Rightarrow> string \<Rightarrow> int \<Rightarrow> int \<Rightarrow> db \<times> int" where
  "insert_workout d t ds dm cb =
     (let i = workouts_id_seq d in
      (d\<lparr>workouts := workouts d @
            [\<lparr>w_id = i, title = t, description = ds, duration_minutes = dm,
              calories_burned = cb, user_id = user_id_default d\<rparr>],
         workouts_id_seq := i + 1\<rparr>, i))"

text \<open>
  \<open>INSERT INTO workout_entries (workout_id, exercise_name, sets, reps, duration_seconds,
  weight, notes, order_index) VALUES ($1, ..., $8)\<close>, with or without \<open>RETURNING id\<close>.
\<close>

definition row_of_entry :: "int \<Rightarrow> int \<Rightarrow> WorkoutEntry \<Rightarrow> workout_entries_row" where
  "row_of_entry i wid entry =
     \<lparr>e_id = i, workout_id = wid, exercise_name = ExerciseName entry,
      sets_col = Sets entry, reps = Reps entry,
      duration_seconds = DurationSeconds entry, weight = Weight entry,
      notes_col = Notes entry, order_index = OrderIndex entry\<rparr>"

definition insert_entry :: "db \<Rightarrow> int \<Rightarrow> WorkoutEntry \<Rightarrow> db \<times> int" where
  "insert_entry d wid entry =
     (let i = workout_entries_id_seq d in
      (d\<lparr>workout_entries := workout_entries d @ [row_of_entry i wid entry],
         workout_entries_id_seq := i + 1\<rparr>, i))"

section \<open>CreateWorkout\<close>

text \<open>
  The loop \<open>for _, entry := range workout.Entries\<close>. The loop variable \<open>entry\<close> is a copy
  of the slice element, so \<open>Scan(&entry.ID)\<close> writes the returned identity into the copy
  (\<open>scanned\<close> below), which the next iteration drops; the slice is not written. \<open>n\<close> is
  the number of the statement within the transaction.
\<close>

fun create_entries :: "faults \<Rightarrow> nat \<Rightarrow> int \<Rightarrow> db \<Rightarrow> WorkoutEntry list \<Rightarrow> error + db" where
  "create_entries f n wid tx [] = Inr tx"
| "create_entries f n wid tx (entry # rest) =
     (case stmt_err f n of
        Some e \<Rightarrow> Inl e
      | None \<Rightarrow>
          (let (tx', new_id) = insert_entry tx wid entry;
               scanned = entry\<lparr>EntryID := new_id\<rparr>
           in create_entries f (Suc n) wid tx' rest))"

text \<open>
  The result is the returned pair and the database afterwards. The transaction works on
  \<open>tx\<close>, a private copy of the database; \<open>tx.Commit()\<close> publishes it, and the deferred
  \<open>tx.Rollback()\<close> of every other path leaves the database as it was.
\<close>

definition CreateWorkout :: "faults \<Rightarrow> db \<Rightarrow> Workout \<Rightarrow> (error + Workout) \<times> db" where
  "CreateWorkout f d workout =
     (case begin_err f of
        Some e \<Rightarrow> (Inl e, d)
      | None \<Rightarrow>
          (case stmt_err f 0 of
             Some e \<Rightarrow> (Inl e, d)
           | None \<Rightarrow>
               (let (tx, new_id) = insert_workout d (Title workout) (Description workout)
                                     (DurationMinutes workout) (CaloriesBurned workout);
                    workout = workout\<lparr>ID := new_id\<rparr>
                in case create_entries f 1 (ID workout) tx (Entries workout) of
                     Inl e \<Rightarrow> (Inl e, d)
                   | Inr tx' \<Rightarrow>
                       (case commit_err f of
                          Some e \<Rightarrow> (Inl ErrConnDone, d)
                        | None \<Rightarrow> (Inr workout, tx')))))"

section \<open>GetWorkoutByID\<close>

text \<open>
  \<open>SELECT id, title, description, duration_minutes, calories_burned FROM workouts
  WHERE id = $1\<close>, read by \<open>QueryRow\<close>, which takes the first row of the result.
\<close>

definition select_workout :: "db \<Rightarrow> int \<Rightarrow> workouts_row option" where
  "select_workout d i = find (\<lambda>r. w_id r = i) (workouts d)"

text \<open>
  \<open>SELECT id, exercise_name, sets, reps, duration_seconds, weight, notes, order_index
  FROM workout_entries WHERE workout_id = $1 ORDER BY order_index\<close>. SQL leaves the order
  of rows with equal \<open>order_index\<close> open: here they come in the order of \<open>tie_order\<close>
  (the sort is stable, so the second sort keeps the order of the first among equal
  \<open>order_index\<close>).
\<close>

definition select_entries :: "db \<Rightarrow> int \<Rightarrow> workout_entries_row list" where
  "select_entries d i =
     sort_key order_index
       (sort_key (tie_order d) (filter (\<lambda>r. workout_id r = i) (workout_entries d)))"

text \<open>\<open>rows.Scan(&entry.ID, &entry.ExerciseName, ...)\<close> into a fresh \<open>WorkoutEntry\<close>.\<close>

definition entry_of_row :: "workout_entries_row \<Rightarrow> WorkoutEntry" where
  "entry_of_row r =
     \<lparr>EntryID = e_id r, ExerciseName = exercise_name r, Sets = sets_col r, Reps = reps r,
      DurationSeconds = duration_seconds r, Weight = weight r, Notes = notes_col r,
      OrderIndex = order_index r\<rparr>"

text \<open>
  The loop \<open>for rows.Next() { ... rows.Scan(...) ... append }\<close> over the rows not yet
  read; \<open>n\<close> counts the rows read so far and \<open>acc\<close> is \<open>workout.Entries\<close>. \<open>rows.Next()\<close>
  returns false at the end of the result and also when fetching the next row fails; in
  the second case the error stays in \<open>rows.Err()\<close>, which the function never reads, so
  the loop just ends.
\<close>

fun scan_rows :: "faults \<Rightarrow> nat \<Rightarrow> workout_entries_row list \<Rightarrow> WorkoutEntry list
    \<Rightarrow> error + WorkoutEntry list" where
  "scan_rows f n [] acc = Inr acc"
| "scan_rows f n (r # rs) acc =
     (case next_err f n of
        Some e \<Rightarrow> Inr acc
      | None \<Rightarrow>
          (case scan_err f n of
             Some e \<Rightarrow> Inl e
           | None \<Rightarrow> scan_rows f (Suc n) rs (acc @ [entry_of_row r])))"

text \<open>
  \<open>Inr None\<close> is the pair \<open>(nil, nil)\<close>, \<open>Inr (Some w)\<close> is \<open>(w, nil)\<close>, \<open>Inl e\<close> is
  \<open>(nil, e)\<close>. \<open>QueryRow(...).Scan(...)\<close> gives \<open>sql.ErrNoRows\<close> when the result is empty.
  The workout starts as \<open>&Workout{}\<close>, so the fields the query does not fill are zero.
\<close>

definition GetWorkoutByID :: "faults \<Rightarrow> db \<Rightarrow> int \<Rightarrow> error + Workout option" where
  "GetWorkoutByID f d i =
     (let scanned = (case queryrow_err f of
                       Some e \<Rightarrow> Inl e
                     | None \<Rightarrow> (case select_workout d i of
                                  None \<Rightarrow> Inl ErrNoRows
                                | Some r \<Rightarrow> Inr r))
      in case scanned of
           Inl e \<Rightarrow> (if e = ErrNoRows then Inr None else Inl e)
         | Inr r \<Rightarrow>
             (let workout = \<lparr>ID = w_id r, Title = title r, Description = description r,
                             DurationMinutes = duration_minutes r,
                             CaloriesBurned = calories_burned r, UserID = 0, Entries = []\<rparr>
              in case query_err f of
                   Some e \<Rightarrow> Inl e
                 | None \<Rightarrow>
                     (case scan_rows f 0 (select_entries d i) (Entries workout) of
                        Inl e \<Rightarrow> Inl e
                      | Inr es \<Rightarrow> Inr (Some (workout\<lparr>Entries := es\<rparr>)))))"

section \<open>UpdateWorkout\<close>

text \<open>
  \<open>UPDATE workouts SET title = $1, description = $2, duration_minutes = $3,
  calories_burned = $4 WHERE id = $5\<close>, with the number of rows affected.
\<close>

definition update_workout :: "db \<Rightarrow> string \<Rightarrow> string \<Rightarrow> int \<Rightarrow> int \<Rightarrow> int \<Rightarrow> db \<times> nat" where
  "update_workout d t ds dm cb i =
     (d\<lparr>workouts := map (\<lambda>r. if w_id r = i
                               then r\<lparr>title := t, description := ds, duration_minutes := dm,
                                      calories_burned := cb\<rparr>
                               else r) (workouts d)\<rparr>,
      length (filter (\<lambda>r. w_id r = i) (workouts d)))"

text \<open>\<open>DELETE FROM workout_entries WHERE workout_id = $1\<close>\<close>

definition delete_entries :: "db \<Rightarrow> int \<Rightarrow> db" where
  "delete_entries d i = d\<lparr>workout_entries := filter (\<lambda>r. workout_id r \<noteq> i) (workout_entries d)\<rparr>"

text \<open>The loop \<open>for _, entry := range Workout.Entries\<close> of UpdateWorkout.\<close>

fun update_entries :: "faults \<Rightarrow> nat \<Rightarrow> int \<Rightarrow> db \<Rightarrow> WorkoutEntry list \<Rightarrow> error + db" where
  "update_entries f n wid tx [] = Inr tx"
| "update_entries f n wid tx (entry # rest) =
     (case stmt_err f n of
        Some e \<Rightarrow> Inl e
      | None \<Rightarrow> update_entries f (Suc n) wid (fst (insert_entry tx wid entry)) rest)"

text \<open>The returned error (\<open>None\<close> is nil) and the database afterwards.\<close>

definition UpdateWorkout :: "faults \<Rightarrow> db \<Rightarrow> Workout \<Rightarrow> error option \<times> db" where
  "UpdateWorkout f d workout =
     (case begin_err f of
        Some e \<Rightarrow> (Some e, d)
      | None \<Rightarrow>
          (case stmt_err f 0 of
             Some e \<Rightarrow> (Some e, d)
           | None \<Rightarrow>
               (let (tx, rowsAffected) = update_workout d (Title workout) (Description workout)
                       (DurationMinutes workout) (CaloriesBurned workout) (ID workout)
                in case rows_affected_err f of
                     Some e \<Rightarrow> (Some e, d)
                   | None \<Rightarrow>
                       if rowsAffected = 0 then (Some ErrNoRows, d)
                       else
                         (case stmt_err f 1 of
                            Some e \<Rightarrow> (Some e, d)
                          | None \<Rightarrow>
                              (case update_entries f 2 (ID workout)
                                      (delete_entries tx (ID workout)) (Entries workout) of
                                 Inl e \<Rightarrow> (Some e, d)
                               | Inr tx' \<Rightarrow>
                                   (case commit_err f of
                                      Some e \<Rightarrow> (Some e, d)
                                    | None \<Rightarrow> (None, tx')))))))"

section \<open>Store operations the handlers call that the store file does not define\<close>

text \<open>
  Modelled from the spec: \<open>GetWorkoutOwner\<close>, which the store file does not define.
  "Returns the owning user's identity or a not-found error."
\<close>

definition GetWorkoutOwner :: "faults \<Rightarrow> db \<Rightarrow> int \<Rightarrow> error + int" where
  "GetWorkoutOwner f d i =
     (case owner_err f of
        Some e \<Rightarrow> Inl e
      | None \<Rightarrow>
          (case select_workout d i of
             None \<Rightarrow> Inl ErrNoRows
           | Some r \<Rightarrow> Inr (user_id r)))"

text \<open>
  Modelled from the spec: \<open>DeleteWorkout\<close>, which the store file does not define.
  "Removes the workout (and, by schema design, its entries); fails with not-found if the
  identity does not exist."
\<close>

definition DeleteWorkout :: "faults \<Rightarrow> db \<Rightarrow> int \<Rightarrow> error option \<times> db" where
  "DeleteWorkout f d i =
     (case delete_err f of
        Some e \<Rightarrow> (Some e, d)
      | None \<Rightarrow>
          if select_workout d i = None then (Some ErrNoRows, d)
          else (None, d\<lparr>workouts := filter (\<lambda>r. w_id r \<noteq> i) (workouts d),
                        workout_entries := filter (\<lambda>r. workout_id r \<noteq> i) (workout_entries d)\<rparr>))"

section \<open>The handlers (package api)\<close>

text \<open>
  A request is what the handler reads from it: the result of \<open>utils.ReadIDParam\<close>, the
  result of decoding the JSON body, and \<open>middleware.GetUser\<close>, which is nil, the sentinel
  \<open>store.AnonymousUser\<close>, or a user with an \<open>ID\<close>. The response is the list of the writes
  to the \<open>http.ResponseWriter\<close>, in order, a status and a body each (\<open>utils.WriteJSON\<close>,
  \<open>http.NotFound\<close>, \<open>http.Error\<close>, whose texts are given without the final newline); the
  client sees the status of the first write. Log output is not modelled.
\<close>

datatype current_user = NoUser | AnonymousUser | User int

datatype body =
    ErrorEnvelope string
  | WorkoutEnvelope "Workout option"
  | WorkoutIDEnvelope int
  | PlainText string

type_synonym response = "(nat \<times> body) list"

definition StatusOK :: nat where "StatusOK = 200"
definition StatusBadRequest :: nat where "StatusBadRequest = 400"
definition StatusForbidden :: nat where "StatusForbidden = 403"
definition StatusNotFound :: nat where "StatusNotFound = 404"
definition StatusInternalServerError :: nat where "StatusInternalServerError = 500"


text \<open>
  The anonymous struct \<open>updatedWorkoutRequest\<close> after decoding: a pointer field is nil,
  and the slice \<open>Entries\<close> is nil, when the body does not have the key (or has it as
  \<open>null\<close>); \<open>"entries": []\<close> decodes to a slice that is empty and not nil.
\<close>

record updatedWorkoutRequest =
  req_Title :: "string option"
  req_Description :: "string option"
  req_DurationMinutes :: "int option"
  req_CaloriesBurned :: "int option"
  req_Entries :: "WorkoutEntry list option"

text \<open>The five \<open>if ... != nil\<close> assignments onto \<open>existingWorkout\<close>.\<close>

definition apply_request :: "updatedWorkoutRequest \<Rightarrow> Workout \<Rightarrow> Workout" where
  "apply_request req existingWorkout =
     (let w1 = (case req_Title req of
                  Some t \<Rightarrow> existingWorkout\<lparr>Title := t\<rparr> | None \<Rightarrow> existingWorkout);
          w2 = (case req_Description req of Some ds \<Rightarrow> w1\<lparr>Description := ds\<rparr> | None \<Rightarrow> w1);
          w3 = (case req_DurationMinutes req of
                  Some dm \<Rightarrow> w2\<lparr>DurationMinutes := dm\<rparr> | None \<Rightarrow> w2);
          w4 = (case req_CaloriesBurned req of
                  Some cb \<Rightarrow> w3\<lparr>CaloriesBurned := cb\<rparr> | None \<Rightarrow> w3)
      in (case req_Entries req of Some es \<Rightarrow> w4\<lparr>Entries := es\<rparr> | None \<Rightarrow> w4))"

definition HandleUpdateWorkoutByID ::
    "faults \<Rightarrow> db \<Rightarrow> error + int \<Rightarrow> error + updatedWorkoutRequest \<Rightarrow> current_user
      \<Rightarrow> response \<times> db" where
  "HandleUpdateWorkoutByID f d idParam decoded currentUser =
     (case idParam of
        Inl err \<Rightarrow> ([(StatusBadRequest, ErrorEnvelope ''invalid workout id'')], d)
      | Inr workoutID \<Rightarrow>
          (case GetWorkoutByID f d workoutID of
             Inl err \<Rightarrow>
               ([(StatusInternalServerError, ErrorEnvelope ''internal server error'')], d)
           | Inr None \<Rightarrow> ([(StatusNotFound, PlainText ''404 page not found'')], d)
           | Inr (Some loaded) \<Rightarrow>
               (case decoded of
                  Inl err \<Rightarrow> ([(StatusBadRequest, ErrorEnvelope ''invalid request payload'')], d)
                | Inr req \<Rightarrow>
                    (let existingWorkout = apply_request req loaded in
                     case currentUser of
                       NoUser \<Rightarrow>
                         ([(StatusBadRequest, ErrorEnvelope ''you must be logged in'')], d)
                     | AnonymousUser \<Rightarrow>
                         ([(StatusBadRequest, ErrorEnvelope ''you must be logged in'')], d)
                     | User uid \<Rightarrow>
                         (case GetWorkoutOwner f d workoutID of
                            Inl err \<Rightarrow>
                              (if err = ErrNoRows
                               then ([(StatusNotFound,
                                       ErrorEnvelope ''workout does not exist'')], d)
                               else ([(StatusInternalServerError,
                                       ErrorEnvelope ''internal server error'')], d))
                          | Inr workoutOwner \<Rightarrow>
                              if workoutOwner \<noteq> uid
                              then ([(StatusForbidden, ErrorEnvelope
                                       ''you are not authorized to update this workout'')], d)
                              else
                                (case UpdateWorkout f d existingWorkout of
                                   (Some err, d') \<Rightarrow>
                                     ([(StatusInternalServerError,
                                        ErrorEnvelope ''internal server error'')], d')
                                 | (None, d') \<Rightarrow>
                                     ([(StatusOK, WorkoutEnvelope (Some existingWorkout))],
                                      d')))))))"

text \<open>
  In HandleDeleteWorkoutByID the branch \<open>workoutOwner != currentUser.ID\<close> writes the
  forbidden response and has no \<open>return\<close>: \<open>forbidden\<close> is what it has written when the
  handler goes on to \<open>DeleteWorkout\<close>.
\<close>

definition HandleDeleteWorkoutByID ::
    "faults \<Rightarrow> db \<Rightarrow> error + int \<Rightarrow> current_user \<Rightarrow> response \<times> db" where
  "HandleDeleteWorkoutByID f d idParam currentUser =
     (case idParam of
        Inl err \<Rightarrow> ([(StatusBadRequest, ErrorEnvelope ''invalid workout id'')], d)
      | Inr workoutID \<Rightarrow>
          (case currentUser of
             NoUser \<Rightarrow> ([(StatusBadRequest, ErrorEnvelope ''you must be logged in'')], d)
           | AnonymousUser \<Rightarrow> ([(StatusBadRequest, ErrorEnvelope ''you must be logged in'')], d)
           | User uid \<Rightarrow>
               (case GetWorkoutOwner f d workoutID of
                  Inl err \<Rightarrow>
                    (if err = ErrNoRows
                     then ([(StatusNotFound, ErrorEnvelope ''workout does not exist'')], d)
                     else ([(StatusInternalServerError,
                             ErrorEnvelope ''internal server error'')], d))
                | Inr workoutOwner \<Rightarrow>
                    (let forbidden =
                           (if workoutOwner \<noteq> uid
                            then [(StatusForbidden, ErrorEnvelope
                                     ''you are not authorized to update this workout'')]
                            else [])
                     in case DeleteWorkout f d workoutID of
                          (Some err, d') \<Rightarrow>
                            (if err = ErrNoRows
                             then (forbidden @ [(StatusNotFound, PlainText ''workout not found'')],
                                   d')
                             else (forbidden @ [(StatusInternalServerError,
                                                 PlainText ''errro deleting workout'')], d'))
                        | (None, d') \<Rightarrow>
                            (forbidden @ [(StatusOK, WorkoutIDEnvelope workoutID)], d')))))"

section \<open>Notions the properties are stated with\<close>

text \<open>
  The rows that inserting the entries \<open>es\<close> one after the other for workout \<open>wid\<close>
  creates, when the sequence stands at \<open>i\<close>.
\<close>

fun entry_rows :: "int \<Rightarrow> int \<Rightarrow> WorkoutEntry list \<Rightarrow> workout_entries_row list" where
  "entry_rows wid i [] = []"
| "entry_rows wid i (entry # rest) = row_of_entry i wid entry # entry_rows wid (i + 1) rest"

text \<open>An entry up to its identity.\<close>

definition without_ID :: "WorkoutEntry \<Rightarrow> WorkoutEntry" where
  "without_ID entry = entry\<lparr>EntryID := 0\<rparr>"

section \<open>Example values\<close>

text \<open>The create request of the specification's example, and a database with no rows.\<close>

definition squat :: WorkoutEntry where
  "squat = \<lparr>EntryID = 0, ExerciseName = ''Squat'', Sets = 3, Reps = Some 10,
     DurationSeconds = None, Weight = None, Notes = [], OrderIndex = 0\<rparr>"

definition leg_day :: Workout where
  "leg_day = \<lparr>ID = 0, Title = ''Leg Day'', Description = [], DurationMinutes = 45,
     CaloriesBurned = 300, UserID = 0, Entries = [squat]\<rparr>"

definition lunge :: WorkoutEntry where
  "lunge = \<lparr>EntryID = 0, ExerciseName = ''Lunge'', Sets = 3, Reps = Some 12,
     DurationSeconds = None, Weight = None, Notes = [], OrderIndex = 1\<rparr>"

definition empty_db :: db where
  "empty_db = \<lparr>workouts = [], workout_entries = [], workouts_id_seq = 1,
     workout_entries_id_seq = 1, user_id_default = 0, tie_order = (\<lambda>_. 0)\<rparr>"

definition commit_fails :: faults where
  "commit_fails = no_faults\<lparr>commit_err := Some (DBError ''connection reset by peer'')\<rparr>"

text \<open>
  A database that holds one workout, owned by user 1, with two entries, and fault
  patterns: the first entry insert of a transaction fails; fetching the second row of a
  result fails.
\<close>

definition stored_db :: db where
  "stored_db = \<lparr>workouts =
       [\<lparr>w_id = 1, title = ''Leg Day'', description = [], duration_minutes = 45,
         calories_burned = 300, user_id = 1\<rparr>],
     workout_entries =
       [\<lparr>e_id = 1, workout_id = 1, exercise_name = ''Squat'', sets_col = 3, reps = Some 10,
         duration_seconds = None, weight = None, notes_col = [], order_index = 0\<rparr>,
        \<lparr>e_id = 2, workout_id = 1, exercise_name = ''Lunge'', sets_col = 3, reps = Some 12,
         duration_seconds = None, weight = None, notes_col = [], order_index = 1\<rparr>],
     workouts_id_seq = 2, workout_entries_id_seq = 3, user_id_default = 0,
     tie_order = (\<lambda>_. 0)\<rparr>"

definition entry_insert_fails :: faults where
  "entry_insert_fails =
     no_faults\<lparr>stmt_err := (\<lambda>n. if n = 1 then Some (DBError ''check constraint violated'')
                                  else None)\<rparr>"

definition iteration_fails :: faults where
  "iteration_fails =
     no_faults\<lparr>next_err := (\<lambda>n. if n = 1 then Some (DBError ''unexpected EOF'') else None)\<rparr>"

text \<open>
  An update request with \<open>calories_burned\<close> alone and the database after the handler has
  applied it to \<open>stored_db\<close>; a workout whose entries are not in \<open>OrderIndex\<close> order.
\<close>

definition only_calories :: updatedWorkoutRequest where
  "only_calories = \<lparr>req_Title = None, req_Description = None, req_DurationMinutes = None,
     req_CaloriesBurned = Some 320, req_Entries = None\<rparr>"

definition reordered :: Workout where
  "reordered = leg_day\<lparr>ID := 1, Entries := [lunge, squat]\<rparr>"

definition after_calories_update :: db where
  "after_calories_update = stored_db\<lparr>workouts :=
       [\<lparr>w_id = 1, title = ''Leg Day'', description = [], duration_minutes = 45,
         calories_burned = 320, user_id = 1\<rparr>],
     workout_entries := [row_of_entry 3 1 squat, row_of_entry 4 1 lunge],
     workout_entries_id_seq := 5\<rparr>"

section \<open>Properties of CreateWorkout\<close>

lemma create_entries_no_fault:
  "\<forall>k < length es. stmt_err f (n + k) = None \<Longrightarrow> \<exists>tx'. create_entries f n wid tx es = Inr tx'"
proof (induction es arbitrary: n tx)
  case Nil
  show ?case by simp
next
  case (Cons entry rest)
  from Cons.prems have here: "stmt_err f n = None" by force
  from Cons.prems have later: "\<forall>k < length rest. stmt_err f (Suc n + k) = None" by force
  obtain tx1 i where ins: "insert_entry tx wid entry = (tx1, i)" by (cases "insert_entry tx wid entry")
  from Cons.IH [OF later] obtain tx' where "create_entries f (Suc n) wid tx1 rest = Inr tx'" by blast
  with here ins show ?case by simp
qed

text \<open>
  C10. When the transaction begins, every insert succeeds and \<open>tx.Commit()\<close> fails with
  any error \<open>e\<close>, CreateWorkout returns \<open>sql.ErrConnDone\<close>, whatever \<open>e\<close> is, and the
  database is left as it was.
\<close>

theorem CreateWorkout_commit_error_replaced:
  assumes "begin_err f = None"
    and "\<forall>n \<le> length (Entries workout). stmt_err f n = None"
    and "commit_err f = Some e"
  shows "CreateWorkout f d workout = (Inl ErrConnDone, d)"
proof -
  from assms(2) have hdr: "stmt_err f 0 = None" by simp
  from assms(2) have "\<forall>k < length (Entries workout). stmt_err f (1 + k) = None" by simp
  from create_entries_no_fault [OF this]
  have ok: "\<And>wid tx. \<exists>tx'. create_entries f 1 wid tx (Entries workout) = Inr tx'" by blast
  obtain tx i where ins: "insert_workout d (Title workout) (Description workout)
      (DurationMinutes workout) (CaloriesBurned workout) = (tx, i)"
    by (cases "insert_workout d (Title workout) (Description workout)
      (DurationMinutes workout) (CaloriesBurned workout)")
  from ok obtain tx' where "create_entries f 1 i tx (Entries workout) = Inr tx'" by blast
  with assms(1,3) hdr ins show ?thesis by (simp add: CreateWorkout_def)
qed

theorem CreateWorkout_commit_error_replaced_witness:
  "begin_err commit_fails = None
   \<and> stmt_err commit_fails 0 = None \<and> stmt_err commit_fails 1 = None
   \<and> commit_err commit_fails = Some (DBError ''connection reset by peer'')
   \<and> CreateWorkout commit_fails empty_db leg_day = (Inl ErrConnDone, empty_db)"
proof -
  have b: "begin_err commit_fails = None" by (simp add: commit_fails_def no_faults_def)
  have s: "\<forall>n \<le> length (Entries leg_day). stmt_err commit_fails n = None"
    by (simp add: commit_fails_def no_faults_def)
  have c: "commit_err commit_fails = Some (DBError ''connection reset by peer'')"
    by (simp add: commit_fails_def)
  from CreateWorkout_commit_error_replaced [OF b s c, of empty_db] b c
  show ?thesis by (simp add: commit_fails_def no_faults_def)
qed

lemma create_entries_fault:
  "\<exists>k < length es. stmt_err f (n + k) \<noteq> None \<Longrightarrow> \<exists>e. create_entries f n wid tx es = Inl e"
proof (induction es arbitrary: n tx)
  case Nil
  then show ?case by simp
next
  case (Cons entry rest)
  show ?case
  proof (cases "stmt_err f n")
    case (Some e)
    then show ?thesis by simp
  next
    case None
    from Cons.prems obtain k where k: "k < Suc (length rest)" "stmt_err f (n + k) \<noteq> None"
      by auto
    with None have "k \<noteq> 0" by (cases k) auto
    then obtain j where j: "k = Suc j" by (cases k) auto
    with k have "\<exists>k < length rest. stmt_err f (Suc n + k) \<noteq> None" by auto
    from Cons.IH [OF this]
    have "\<exists>e. create_entries f (Suc n) wid (fst (insert_entry tx wid entry)) rest = Inl e" .
    with None show ?thesis by (simp add: split_beta)
  qed
qed

text \<open>Whatever fails, a CreateWorkout that returns an error leaves the database as it was.\<close>

lemma CreateWorkout_error_no_change:
  "CreateWorkout f d workout = (Inl e, d') \<Longrightarrow> d' = d"
  by (auto simp: CreateWorkout_def split_beta split: option.splits sum.splits)

text \<open>
  C4. Statement 0 of the transaction is the insert of the header and statement \<open>n\<close>, for
  \<open>1 \<le> n \<le> length (Entries workout)\<close>, the insert of the \<open>n\<close>-th entry. When the
  transaction begins and any of these inserts fails, CreateWorkout returns an error and
  the database is the one before the call: both tables have the rows they had, and none
  for this workout.
\<close>

theorem CreateWorkout_insert_failure_atomic:
  assumes "begin_err f = None"
    and "\<exists>n \<le> length (Entries workout). stmt_err f n \<noteq> None"
  shows "\<exists>e. CreateWorkout f d workout = (Inl e, d)"
proof (cases "stmt_err f 0")
  case (Some e)
  with assms(1) show ?thesis by (simp add: CreateWorkout_def)
next
  case None
  from assms(2) obtain n where n: "n \<le> length (Entries workout)" "stmt_err f n \<noteq> None"
    by blast
  with None obtain k where k: "n = Suc k" by (cases n) auto
  with n have "k < length (Entries workout)" "stmt_err f (1 + k) \<noteq> None" by simp_all
  then have "\<exists>k < length (Entries workout). stmt_err f (1 + k) \<noteq> None" by blast
  from create_entries_fault [OF this]
  have "\<And>wid tx. \<exists>e. create_entries f 1 wid tx (Entries workout) = Inl e" by blast
  then obtain e where "create_entries f 1
      (snd (insert_workout d (Title workout) (Description workout)
              (DurationMinutes workout) (CaloriesBurned workout)))
      (fst (insert_workout d (Title workout) (Description workout)
              (DurationMinutes workout) (CaloriesBurned workout))) (Entries workout) = Inl e"
    by blast
  with assms(1) None show ?thesis by (simp add: CreateWorkout_def split_beta)
qed

theorem CreateWorkout_insert_failure_atomic_witness:
  "begin_err entry_insert_fails = None
   \<and> stmt_err entry_insert_fails 1 = Some (DBError ''check constraint violated'')
   \<and> CreateWorkout entry_insert_fails empty_db leg_day =
       (Inl (DBError ''check constraint violated''), empty_db)"
proof -
  have b: "begin_err entry_insert_fails = None"
    by (simp add: entry_insert_fails_def no_faults_def)
  have s: "stmt_err entry_insert_fails 1 = Some (DBError ''check constraint violated'')"
    by (simp add: entry_insert_fails_def)
  have "length (Entries leg_day) = 1" by (simp add: leg_day_def)
  with s have "\<exists>n \<le> length (Entries leg_day). stmt_err entry_insert_fails n \<noteq> None"
    by (intro exI [of _ 1]) simp
  from CreateWorkout_insert_failure_atomic [OF b this, of empty_db]
  obtain e where e: "CreateWorkout entry_insert_fails empty_db leg_day = (Inl e, empty_db)"
    by blast
  have "fst (CreateWorkout entry_insert_fails empty_db leg_day) =
      Inl (DBError ''check constraint violated'')"
    by (simp add: CreateWorkout_def insert_workout_def entry_insert_fails_def no_faults_def
        leg_day_def Let_def)
  with e b s show ?thesis by simp
qed

section \<open>Properties of UpdateWorkout\<close>

text \<open>
  C8. When no row of \<open>workouts\<close> has the workout's ID, UpdateWorkout leaves the database
  (so the entries table) as it was, whatever fails; and when the transaction begins and
  the header update and \<open>RowsAffected\<close> succeed, the error it returns is \<open>sql.ErrNoRows\<close>.
\<close>

theorem UpdateWorkout_not_found:
  assumes "\<forall>r \<in> set (workouts d). w_id r \<noteq> ID workout"
  shows "snd (UpdateWorkout f d workout) = d
    \<and> (begin_err f = None \<and> stmt_err f 0 = None \<and> rows_affected_err f = None
        \<longrightarrow> fst (UpdateWorkout f d workout) = Some ErrNoRows)"
proof -
  from assms have "filter (\<lambda>r. w_id r = ID workout) (workouts d) = []"
    by (simp add: filter_empty_conv)
  then have "snd (update_workout d (Title workout) (Description workout)
      (DurationMinutes workout) (CaloriesBurned workout) (ID workout)) = 0"
    by (simp add: update_workout_def)
  then show ?thesis
    by (simp add: UpdateWorkout_def split_beta split: option.splits)
qed

theorem UpdateWorkout_not_found_witness:
  "map w_id (workouts stored_db) = [1]
   \<and> UpdateWorkout no_faults stored_db (leg_day\<lparr>ID := 5\<rparr>) = (Some ErrNoRows, stored_db)"
proof -
  have ids: "map w_id (workouts stored_db) = [1]" by (simp add: stored_db_def)
  have "\<forall>r \<in> set (workouts stored_db). w_id r \<noteq> ID (leg_day\<lparr>ID := 5\<rparr>)"
    by (simp add: stored_db_def)
  from UpdateWorkout_not_found [OF this, of no_faults]
  have "UpdateWorkout no_faults stored_db (leg_day\<lparr>ID := 5\<rparr>) = (Some ErrNoRows, stored_db)"
    by (simp add: no_faults_def prod_eq_iff)
  with ids show ?thesis by simp
qed

section \<open>Properties of GetWorkoutByID\<close>

text \<open>
  What GetWorkoutByID returns as entries is a prefix of the selected rows: all of them
  unless fetching a row fails.
\<close>

lemma scan_rows_prefix:
  "scan_rows f n rs acc = Inr es \<Longrightarrow> \<exists>k. es = acc @ map entry_of_row (take k rs)"
proof (induction rs arbitrary: n acc)
  case Nil
  then show ?case by simp
next
  case (Cons r rs)
  show ?case
  proof (cases "next_err f n")
    case (Some e)
    with Cons.prems have "es = acc @ map entry_of_row (take 0 (r # rs))" by simp
    then show ?thesis by blast
  next
    case None
    with Cons.prems have "scan_rows f (Suc n) rs (acc @ [entry_of_row r]) = Inr es"
      by (simp split: option.splits)
    from Cons.IH [OF this] obtain k where "es = (acc @ [entry_of_row r]) @ map entry_of_row (take k rs)"
      by blast
    then have "es = acc @ map entry_of_row (take (Suc k) (r # rs))" by simp
    then show ?thesis by blast
  qed
qed

lemma scan_rows_ok:
  "\<forall>k < length rs. next_err g (n + k) = None \<and> scan_err g (n + k) = None \<Longrightarrow>
     scan_rows g n rs acc = Inr (acc @ map entry_of_row rs)"
proof (induction rs arbitrary: n acc)
  case Nil
  show ?case by simp
next
  case (Cons r rs)
  from Cons.prems have here: "next_err g n = None" "scan_err g n = None" by force+
  from Cons.prems have "\<forall>k < length rs. next_err g (Suc n + k) = None \<and> scan_err g (Suc n + k) = None"
    by force
  from Cons.IH [OF this] here show ?case by simp
qed

lemma GetWorkoutByID_entries_prefix:
  assumes "GetWorkoutByID f d i = Inr (Some w)"
  shows "\<exists>k. Entries w = map entry_of_row (take k (select_entries d i))"
proof -
  from assms obtain es where es: "scan_rows f 0 (select_entries d i) [] = Inr es" "Entries w = es"
    by (auto simp: GetWorkoutByID_def Let_def split: option.splits sum.splits if_splits)
  from scan_rows_prefix [OF es(1)] es(2) show ?thesis by simp
qed

lemma OrderIndex_entry_of_row: "OrderIndex \<circ> entry_of_row = order_index"
  by (simp add: fun_eq_iff entry_of_row_def)

lemma select_entries_sorted: "sorted (map order_index (take k (select_entries d i)))"
proof -
  have "sorted (map order_index (select_entries d i))" by (simp add: select_entries_def)
  then have "sorted (take k (map order_index (select_entries d i)))" by (rule sorted_wrt_take)
  then show ?thesis by (simp add: take_map)
qed

lemma GetWorkoutByID_sorted:
  assumes "GetWorkoutByID f d i = Inr (Some w)"
  shows "sorted (map OrderIndex (Entries w))"
proof -
  from GetWorkoutByID_entries_prefix [OF assms] obtain k
    where "Entries w = map entry_of_row (take k (select_entries d i))" by blast
  then show ?thesis by (simp add: OrderIndex_entry_of_row select_entries_sorted)
qed

section \<open>The rows that CreateWorkout and UpdateWorkout write\<close>

lemma create_entries_rows:
  "create_entries f n wid tx es = Inr tx' \<Longrightarrow>
     tx' = tx\<lparr>workout_entries := workout_entries tx @ entry_rows wid (workout_entries_id_seq tx) es,
              workout_entries_id_seq := workout_entries_id_seq tx + int (length es)\<rparr>"
proof (induction es arbitrary: n tx)
  case Nil
  then show ?case by simp
next
  case (Cons entry rest)
  from Cons.prems
  have "create_entries f (Suc n) wid (fst (insert_entry tx wid entry)) rest = Inr tx'"
    by (simp add: split_beta split: option.splits)
  from Cons.IH [OF this] show ?case by (simp add: insert_entry_def Let_def)
qed

lemma update_entries_eq: "update_entries f n wid tx es = create_entries f n wid tx es"
  by (induction es arbitrary: n tx) (simp_all add: split_beta split: option.splits)


lemma CreateWorkout_success:
  assumes "CreateWorkout f d workout = (Inr created, d')"
  shows "workouts d' = workouts d @
           [\<lparr>w_id = workouts_id_seq d, title = Title workout, description = Description workout,
             duration_minutes = DurationMinutes workout,
             calories_burned = CaloriesBurned workout, user_id = user_id_default d\<rparr>]"
    and "workout_entries d' = workout_entries d @
           entry_rows (workouts_id_seq d) (workout_entries_id_seq d) (Entries workout)"
    and "ID created = workouts_id_seq d"
proof -
  let ?tx = "fst (insert_workout d (Title workout) (Description workout)
                   (DurationMinutes workout) (CaloriesBurned workout))"
  from assms have c: "create_entries f 1 (workouts_id_seq d) ?tx (Entries workout) = Inr d'"
    and i: "created = workout\<lparr>ID := workouts_id_seq d\<rparr>"
    by (auto simp: CreateWorkout_def insert_workout_def Let_def split: option.splits sum.splits)
  from create_entries_rows [OF c]
  show "workouts d' = workouts d @
           [\<lparr>w_id = workouts_id_seq d, title = Title workout, description = Description workout,
             duration_minutes = DurationMinutes workout,
             calories_burned = CaloriesBurned workout, user_id = user_id_default d\<rparr>]"
    and "workout_entries d' = workout_entries d @
           entry_rows (workouts_id_seq d) (workout_entries_id_seq d) (Entries workout)"
    by (simp_all add: insert_workout_def Let_def)
  from i show "ID created = workouts_id_seq d" by simp
qed

lemma UpdateWorkout_success:
  assumes "UpdateWorkout f d workout = (None, d')"
  shows "workouts d' =
           map (\<lambda>r. if w_id r = ID workout
                     then r\<lparr>title := Title workout, description := Description workout,
                            duration_minutes := DurationMinutes workout,
                            calories_burned := CaloriesBurned workout\<rparr>
                     else r) (workouts d)"
    and "workout_entries d' =
           filter (\<lambda>r. workout_id r \<noteq> ID workout) (workout_entries d) @
           entry_rows (ID workout) (workout_entries_id_seq d) (Entries workout)"
    and "filter (\<lambda>r. w_id r = ID workout) (workouts d) \<noteq> []"
proof -
  let ?tx = "fst (update_workout d (Title workout) (Description workout)
                   (DurationMinutes workout) (CaloriesBurned workout) (ID workout))"
  from assms
  have c: "create_entries f 2 (ID workout) (delete_entries ?tx (ID workout)) (Entries workout) = Inr d'"
    and n: "snd (update_workout d (Title workout) (Description workout)
                   (DurationMinutes workout) (CaloriesBurned workout) (ID workout)) \<noteq> 0"
    by (auto simp: UpdateWorkout_def update_entries_eq split_beta
        split: option.splits sum.splits if_splits)
  from create_entries_rows [OF c]
  show "workouts d' =
           map (\<lambda>r. if w_id r = ID workout
                     then r\<lparr>title := Title workout, description := Description workout,
                            duration_minutes := DurationMinutes workout,
                            calories_burned := CaloriesBurned workout\<rparr>
                     else r) (workouts d)"
    and "workout_entries d' =
           filter (\<lambda>r. workout_id r \<noteq> ID workout) (workout_entries d) @
           entry_rows (ID workout) (workout_entries_id_seq d) (Entries workout)"
    by (simp_all add: update_workout_def delete_entries_def)
  from n show "filter (\<lambda>r. w_id r = ID workout) (workouts d) \<noteq> []"
    by (simp add: update_workout_def)
qed

lemma order_index_entry_rows: "map order_index (entry_rows wid i es) = map OrderIndex es"
  by (induction es arbitrary: i) (simp_all add: row_of_entry_def)

lemma CreateWorkout_succeeds:
  assumes "begin_err f = None"
    and "\<forall>n \<le> length (Entries workout). stmt_err f n = None"
    and "commit_err f = None"
  shows "\<exists>created d'. CreateWorkout f d workout = (Inr created, d')"
proof -
  from assms(2) have hdr: "stmt_err f 0 = None" by simp
  from assms(2) have "\<forall>k < length (Entries workout). stmt_err f (1 + k) = None" by simp
  from create_entries_no_fault [OF this]
  obtain tx' where "create_entries f 1 (workouts_id_seq d)
      (fst (insert_workout d (Title workout) (Description workout)
              (DurationMinutes workout) (CaloriesBurned workout))) (Entries workout) = Inr tx'"
    by blast
  with assms(1,3) hdr show ?thesis
    by (simp add: CreateWorkout_def insert_workout_def Let_def)
qed

lemma UpdateWorkout_succeeds:
  assumes "\<exists>r \<in> set (workouts d). w_id r = ID workout"
    and "begin_err f = None"
    and "\<forall>n \<le> length (Entries workout) + 1. stmt_err f n = None"
    and "rows_affected_err f = None"
    and "commit_err f = None"
  shows "\<exists>d'. UpdateWorkout f d workout = (None, d')"
proof -
  from assms(3) have s0: "stmt_err f 0 = None" and s1: "stmt_err f 1 = None" by simp_all
  from assms(3) have "\<forall>k < length (Entries workout). stmt_err f (2 + k) = None" by simp
  from create_entries_no_fault [OF this]
  obtain tx' where tx': "update_entries f 2 (ID workout)
      (delete_entries (fst (update_workout d (Title workout) (Description workout)
         (DurationMinutes workout) (CaloriesBurned workout) (ID workout))) (ID workout))
      (Entries workout) = Inr tx'"
    unfolding update_entries_eq by blast
  from assms(1) have "filter (\<lambda>r. w_id r = ID workout) (workouts d) \<noteq> []"
    by (simp add: filter_empty_conv)
  then have "snd (update_workout d (Title workout) (Description workout)
         (DurationMinutes workout) (CaloriesBurned workout) (ID workout)) \<noteq> 0"
    by (simp add: update_workout_def)
  with assms(2,4,5) s0 s1 tx' show ?thesis
    by (simp add: UpdateWorkout_def split_beta)
qed

text \<open>
  C9. In every database, the entries GetWorkoutByID returns are in ascending
  \<open>OrderIndex\<close> order. When no call fails, CreateWorkout succeeds, and so does
  UpdateWorkout on a workout that has a row. A successful CreateWorkout appends the rows
  of its entries in the given order (their \<open>order_index\<close> values are the entries'
  \<open>OrderIndex\<close> values, in that order); a successful UpdateWorkout removes the workout's
  rows and appends the rows of the supplied entries in the given order; and in the
  database either leaves behind GetWorkoutByID again returns entries in ascending
  \<open>OrderIndex\<close> order.
\<close>

theorem GetWorkoutByID_entries_sorted:
  "(GetWorkoutByID f d i = Inr (Some got) \<longrightarrow> sorted (map OrderIndex (Entries got)))
   \<and> (begin_err fc = None \<and> (\<forall>n \<le> length (Entries wc). stmt_err fc n = None)
        \<and> commit_err fc = None \<longrightarrow>
        (\<exists>created dc. CreateWorkout fc d wc = (Inr created, dc)))
   \<and> (CreateWorkout fc d wc = (Inr created, dc) \<longrightarrow>
        workout_entries dc = workout_entries d @
          entry_rows (ID created) (workout_entries_id_seq d) (Entries wc)
        \<and> map order_index (entry_rows (ID created) (workout_entries_id_seq d) (Entries wc)) =
            map OrderIndex (Entries wc)
        \<and> (GetWorkoutByID f dc i = Inr (Some gotc) \<longrightarrow> sorted (map OrderIndex (Entries gotc))))
   \<and> ((\<exists>r \<in> set (workouts d). w_id r = ID wu) \<and> begin_err fu = None
        \<and> (\<forall>n \<le> length (Entries wu) + 1. stmt_err fu n = None)
        \<and> rows_affected_err fu = None \<and> commit_err fu = None \<longrightarrow>
        (\<exists>du. UpdateWorkout fu d wu = (None, du)))
   \<and> (UpdateWorkout fu d wu = (None, du) \<longrightarrow>
        workout_entries du = filter (\<lambda>r. workout_id r \<noteq> ID wu) (workout_entries d) @
          entry_rows (ID wu) (workout_entries_id_seq d) (Entries wu)
        \<and> map order_index (entry_rows (ID wu) (workout_entries_id_seq d) (Entries wu)) =
            map OrderIndex (Entries wu)
        \<and> (GetWorkoutByID f du i = Inr (Some gotu) \<longrightarrow> sorted (map OrderIndex (Entries gotu))))"
proof (intro conjI impI)
  assume "GetWorkoutByID f d i = Inr (Some got)"
  then show "sorted (map OrderIndex (Entries got))" by (rule GetWorkoutByID_sorted)
next
  assume "begin_err fc = None \<and> (\<forall>n \<le> length (Entries wc). stmt_err fc n = None)
        \<and> commit_err fc = None"
  then show "\<exists>created dc. CreateWorkout fc d wc = (Inr created, dc)"
    using CreateWorkout_succeeds by blast
next
  assume c: "CreateWorkout fc d wc = (Inr created, dc)"
  from CreateWorkout_success(2,3) [OF c]
  show "workout_entries dc = workout_entries d @
          entry_rows (ID created) (workout_entries_id_seq d) (Entries wc)" by simp
  show "map order_index (entry_rows (ID created) (workout_entries_id_seq d) (Entries wc)) =
            map OrderIndex (Entries wc)" by (rule order_index_entry_rows)
next
  assume "GetWorkoutByID f dc i = Inr (Some gotc)"
  then show "sorted (map OrderIndex (Entries gotc))" by (rule GetWorkoutByID_sorted)
next
  assume "(\<exists>r \<in> set (workouts d). w_id r = ID wu) \<and> begin_err fu = None
        \<and> (\<forall>n \<le> length (Entries wu) + 1. stmt_err fu n = None)
        \<and> rows_affected_err fu = None \<and> commit_err fu = None"
  then show "\<exists>du. UpdateWorkout fu d wu = (None, du)"
    using UpdateWorkout_succeeds by blast
next
  assume u: "UpdateWorkout fu d wu = (None, du)"
  from UpdateWorkout_success(2) [OF u]
  show "workout_entries du = filter (\<lambda>r. workout_id r \<noteq> ID wu) (workout_entries d) @
          entry_rows (ID wu) (workout_entries_id_seq d) (Entries wu)" .
  show "map order_index (entry_rows (ID wu) (workout_entries_id_seq d) (Entries wu)) =
            map OrderIndex (Entries wu)" by (rule order_index_entry_rows)
next
  assume "GetWorkoutByID f du i = Inr (Some gotu)"
  then show "sorted (map OrderIndex (Entries gotu))" by (rule GetWorkoutByID_sorted)
qed

text \<open>
  Entries given in descending \<open>OrderIndex\<close> order: created on the empty database, and
  given to UpdateWorkout for workout 1 of \<open>stored_db\<close>. Both succeed, both write the rows
  in the given order, and GetWorkoutByID returns them in ascending order.
\<close>

theorem GetWorkoutByID_entries_sorted_witness:
  "fst (CreateWorkout no_faults empty_db (leg_day\<lparr>Entries := [lunge, squat]\<rparr>)) =
     Inr (leg_day\<lparr>ID := 1, Entries := [lunge, squat]\<rparr>)
   \<and> map order_index (workout_entries
         (snd (CreateWorkout no_faults empty_db (leg_day\<lparr>Entries := [lunge, squat]\<rparr>)))) = [1, 0]
   \<and> GetWorkoutByID no_faults
        (snd (CreateWorkout no_faults empty_db (leg_day\<lparr>Entries := [lunge, squat]\<rparr>))) 1 =
       Inr (Some (leg_day\<lparr>ID := 1,
                          Entries := [squat\<lparr>EntryID := 2\<rparr>, lunge\<lparr>EntryID := 1\<rparr>]\<rparr>))
   \<and> sorted (map OrderIndex
        (Entries (leg_day\<lparr>ID := 1,
                          Entries := [squat\<lparr>EntryID := 2\<rparr>, lunge\<lparr>EntryID := 1\<rparr>]\<rparr>)))
   \<and> fst (UpdateWorkout no_faults stored_db reordered) = None
   \<and> workout_entries (snd (UpdateWorkout no_faults stored_db reordered)) =
       [row_of_entry 3 1 lunge, row_of_entry 4 1 squat]
   \<and> map order_index (workout_entries (snd (UpdateWorkout no_faults stored_db reordered))) =
       [1, 0]
   \<and> GetWorkoutByID no_faults (snd (UpdateWorkout no_faults stored_db reordered)) 1 =
       Inr (Some (reordered\<lparr>Entries := [squat\<lparr>EntryID := 4\<rparr>, lunge\<lparr>EntryID := 3\<rparr>]\<rparr>))
   \<and> sorted (map OrderIndex
        (Entries (reordered\<lparr>Entries := [squat\<lparr>EntryID := 4\<rparr>, lunge\<lparr>EntryID := 3\<rparr>]\<rparr>)))"
proof -
  let ?wc = "leg_day\<lparr>Entries := [lunge, squat]\<rparr>"
  let ?r = "CreateWorkout no_faults empty_db ?wc"
  let ?got = "leg_day\<lparr>ID := 1, Entries := [squat\<lparr>EntryID := 2\<rparr>, lunge\<lparr>EntryID := 1\<rparr>]\<rparr>"
  let ?u = "UpdateWorkout no_faults stored_db reordered"
  let ?gotu = "reordered\<lparr>Entries := [squat\<lparr>EntryID := 4\<rparr>, lunge\<lparr>EntryID := 3\<rparr>]\<rparr>"
  note at_create = GetWorkoutByID_entries_sorted [where fc = no_faults and d = empty_db
      and wc = ?wc and dc = "snd ?r" and f = no_faults and i = 1 and gotc = ?got
      and created = "leg_day\<lparr>ID := 1, Entries := [lunge, squat]\<rparr>"]
  note at_update = GetWorkoutByID_entries_sorted [where fu = no_faults and d = stored_db
      and wu = reordered and du = "snd ?u" and f = no_faults and i = 1 and gotu = ?gotu]
  have nf: "begin_err no_faults = None" "rows_affected_err no_faults = None"
    "commit_err no_faults = None" "\<And>n. stmt_err no_faults n = None"
    by (simp_all add: no_faults_def)
  have c: "fst ?r = Inr (leg_day\<lparr>ID := 1, Entries := [lunge, squat]\<rparr>)"
    by (simp add: CreateWorkout_def insert_workout_def insert_entry_def row_of_entry_def
        empty_db_def leg_day_def squat_def lunge_def no_faults_def Let_def)
  have g: "GetWorkoutByID no_faults (snd ?r) 1 = Inr (Some ?got)"
    by (simp add: CreateWorkout_def insert_workout_def insert_entry_def row_of_entry_def
        empty_db_def leg_day_def squat_def lunge_def no_faults_def Let_def
        GetWorkoutByID_def select_workout_def select_entries_def entry_of_row_def)
  from c have ceq: "?r = (Inr (leg_day\<lparr>ID := 1, Entries := [lunge, squat]\<rparr>), snd ?r)"
    by (simp add: prod_eq_iff)
  from at_create ceq g have rows: "workout_entries (snd ?r) = workout_entries empty_db @
      entry_rows 1 (workout_entries_id_seq empty_db) [lunge, squat]"
    and sc: "sorted (map OrderIndex (Entries ?got))"
    by simp_all
  from rows have rows': "map order_index (workout_entries (snd ?r)) = [1, 0]"
    by (simp add: empty_db_def row_of_entry_def lunge_def squat_def)
  have ex: "\<exists>r \<in> set (workouts stored_db). w_id r = ID reordered"
    by (simp add: stored_db_def reordered_def)
  from at_update ex nf obtain du where du: "?u = (None, du)" by blast
  then have u1: "fst ?u = None" and ueq: "?u = (None, snd ?u)" by simp_all
  have gu: "GetWorkoutByID no_faults (snd ?u) 1 = Inr (Some ?gotu)"
    by (simp add: UpdateWorkout_def update_workout_def delete_entries_def insert_entry_def
        row_of_entry_def stored_db_def reordered_def leg_day_def squat_def lunge_def
        no_faults_def Let_def GetWorkoutByID_def select_workout_def select_entries_def
        entry_of_row_def)
  from at_update ueq gu have urows: "workout_entries (snd ?u) =
      filter (\<lambda>r. workout_id r \<noteq> ID reordered) (workout_entries stored_db) @
      entry_rows (ID reordered) (workout_entries_id_seq stored_db) (Entries reordered)"
    and su: "sorted (map OrderIndex (Entries ?gotu))"
    by simp_all
  from urows have urows': "workout_entries (snd ?u) =
      [row_of_entry 3 1 lunge, row_of_entry 4 1 squat]"
    by (simp add: stored_db_def reordered_def)
  then have uord: "map order_index (workout_entries (snd ?u)) = [1, 0]"
    by (simp add: row_of_entry_def lunge_def squat_def)
  from c rows' g sc u1 urows' uord gu su show ?thesis by blast
qed

section \<open>UpdateWorkout followed by GetWorkoutByID\<close>

lemma workout_id_entry_rows: "filter (\<lambda>r. workout_id r = wid) (entry_rows wid i es) = entry_rows wid i es"
  by (induction es arbitrary: i) (simp_all add: row_of_entry_def)

lemma e_id_entry_rows: "r \<in> set (entry_rows wid i es) \<Longrightarrow> i \<le> e_id r"
proof (induction es arbitrary: i)
  case Nil
  then show ?case by simp
next
  case (Cons entry rest)
  from Cons.prems have "r = row_of_entry i wid entry \<or> r \<in> set (entry_rows wid (i + 1) rest)"
    by simp
  then show ?case
  proof
    assume "r = row_of_entry i wid entry"
    then show ?thesis by (simp add: row_of_entry_def)
  next
    assume "r \<in> set (entry_rows wid (i + 1) rest)"
    from Cons.IH [OF this] show ?thesis by simp
  qed
qed

lemma without_ID_entry_rows:
  "map (without_ID \<circ> entry_of_row) (entry_rows wid i es) = map without_ID es"
  by (induction es arbitrary: i) (simp_all add: row_of_entry_def entry_of_row_def without_ID_def)

lemma length_entry_rows: "length (entry_rows wid i es) = length es"
  by (induction es arbitrary: i) simp_all

lemma select_entries_after_update:
  assumes "UpdateWorkout f d workout = (None, d')"
  shows "select_entries d' (ID workout) =
           sort_key order_index (sort_key (tie_order d')
             (entry_rows (ID workout) (workout_entries_id_seq d) (Entries workout)))"
proof -
  have "filter (\<lambda>r. workout_id r = ID workout)
          (filter (\<lambda>r. workout_id r \<noteq> ID workout) (workout_entries d)) = []"
    by (simp add: filter_empty_conv)
  with UpdateWorkout_success(2) [OF assms] show ?thesis
    by (simp add: select_entries_def workout_id_entry_rows)
qed

lemma select_workout_after_update:
  assumes "UpdateWorkout f d workout = (None, d')"
  shows "\<exists>r. select_workout d' (ID workout) = Some r"
proof -
  from UpdateWorkout_success(3) [OF assms]
  obtain r where r: "r \<in> set (workouts d)" "w_id r = ID workout"
    by (auto simp: filter_empty_conv)
  let ?upd = "\<lambda>r. if w_id r = ID workout
                     then r\<lparr>title := Title workout, description := Description workout,
                            duration_minutes := DurationMinutes workout,
                            calories_burned := CaloriesBurned workout\<rparr>
                     else r"
  from r have "?upd r \<in> set (workouts d')" "w_id (?upd r) = ID workout"
    by (simp_all add: UpdateWorkout_success(1) [OF assms])
  then have "find (\<lambda>r. w_id r = ID workout) (workouts d') \<noteq> None"
    unfolding find_None_iff by blast
  then show ?thesis by (auto simp: select_workout_def)
qed

text \<open>
  Rows whose keys are in strictly ascending order are already in the one order a sort by
  that key can give them, whatever it does with equal keys.
\<close>

lemma sorted_selection_unique:
  assumes "sorted_wrt (<) (map key rows)"
    and "mset sel = mset rows" and "sorted (map key sel)"
  shows "sel = rows"
proof -
  from assms(1) have sr: "sorted (map key rows)" and dr: "distinct (map key rows)"
    by (simp_all add: strict_sorted_iff)
  from assms(2) have st: "set sel = set rows" by (rule mset_eq_setD)
  from assms(2) have "mset (map key sel) = mset (map key rows)" by simp
  from mset_eq_imp_distinct_iff [OF this] dr have ds: "distinct (map key sel)" by simp
  from dr have "inj_on key (set rows)" by (simp add: distinct_map)
  with st have inj: "inj_on key (set sel \<union> set rows)" by simp
  from inj assms(3) ds sr dr st show ?thesis by (rule map_sorted_distinct_set_unique)
qed

text \<open>
  C5, as amended. A successful UpdateWorkout with the entry list \<open>E\<close> removes the rows
  of the workout from the entries table and appends the rows of \<open>E\<close> in the given order.
  After it, a GetWorkoutByID in which no call fails (the header query, the entries query, and the
  fetch and scan of each of the \<open>length E\<close> rows) finds the workout, and its entries are
  the rows inserted for \<open>E\<close>, each under the identity the database assigned in this
  update, in ascending \<open>OrderIndex\<close> order: up to the identities they are the entries of
  \<open>E\<close>, as many of each, and exactly \<open>E\<close> in its given order when the \<open>OrderIndex\<close>
  values of \<open>E\<close> are strictly ascending; no identity is older than the update, so nothing
  of the old list is retrieved. This holds for every \<open>tie_order\<close> of the database.
\<close>

theorem UpdateWorkout_then_GetWorkoutByID:
  assumes "UpdateWorkout f d workout = (None, d')"
    and "queryrow_err g = None" and "query_err g = None"
    and "\<forall>k < length (Entries workout). next_err g k = None \<and> scan_err g k = None"
  shows "workout_entries d' =
       filter (\<lambda>r. workout_id r \<noteq> ID workout) (workout_entries d) @
       entry_rows (ID workout) (workout_entries_id_seq d) (Entries workout)
   \<and> (\<exists>got. GetWorkoutByID g d' (ID workout) = Inr (Some got)
     \<and> mset (Entries got) = mset (map entry_of_row
          (entry_rows (ID workout) (workout_entries_id_seq d) (Entries workout)))
     \<and> mset (map without_ID (Entries got)) = mset (map without_ID (Entries workout))
     \<and> sorted (map OrderIndex (Entries got))
     \<and> (sorted_wrt (<) (map OrderIndex (Entries workout))
          \<longrightarrow> map without_ID (Entries got) = map without_ID (Entries workout))
     \<and> (\<forall>entry \<in> set (Entries got). workout_entries_id_seq d \<le> EntryID entry))"
proof -
  let ?rows = "entry_rows (ID workout) (workout_entries_id_seq d) (Entries workout)"
  let ?sel = "sort_key order_index (sort_key (tie_order d') ?rows)"
  from select_workout_after_update [OF assms(1)]
  obtain r where r: "select_workout d' (ID workout) = Some r" by blast
  define got where "got = \<lparr>ID = w_id r, Title = title r, Description = description r,
      DurationMinutes = duration_minutes r, CaloriesBurned = calories_burned r, UserID = 0,
      Entries = map entry_of_row ?sel\<rparr>"
  have sel: "select_entries d' (ID workout) = ?sel"
    by (rule select_entries_after_update [OF assms(1)])
  have "length ?sel = length (Entries workout)" by (simp add: length_entry_rows)
  with assms(4) have "\<forall>k < length ?sel. next_err g (0 + k) = None \<and> scan_err g (0 + k) = None"
    by simp
  from scan_rows_ok [OF this] have scan: "scan_rows g 0 ?sel [] = Inr (map entry_of_row ?sel)"
    by simp
  have get: "GetWorkoutByID g d' (ID workout) = Inr (Some got)"
    using r sel scan assms(2,3) by (simp add: GetWorkoutByID_def got_def)
  have e0: "Entries got = map entry_of_row ?sel" by (simp add: got_def)
  have msel: "mset ?sel = mset ?rows" by simp
  have e1: "mset (Entries got) = mset (map entry_of_row ?rows)"
    unfolding e0 by simp
  have "mset (map without_ID (Entries got)) =
          mset (map without_ID (map entry_of_row ?rows))"
    unfolding e0 by simp
  then have e2: "mset (map without_ID (Entries got)) = mset (map without_ID (Entries workout))"
    by (simp add: without_ID_entry_rows)
  have ssel: "sorted (map order_index ?sel)" by simp
  have e3: "sorted (map OrderIndex (Entries got))"
    unfolding e0 using ssel by (simp add: OrderIndex_entry_of_row)
  have e4: "sorted_wrt (<) (map OrderIndex (Entries workout))
          \<longrightarrow> map without_ID (Entries got) = map without_ID (Entries workout)"
  proof
    assume "sorted_wrt (<) (map OrderIndex (Entries workout))"
    then have "sorted_wrt (<) (map order_index ?rows)" by (simp add: order_index_entry_rows)
    from sorted_selection_unique [OF this msel ssel] have "?sel = ?rows" .
    then have "map without_ID (Entries got) = map without_ID (map entry_of_row ?rows)"
      unfolding e0 by simp
    then show "map without_ID (Entries got) = map without_ID (Entries workout)"
      by (simp add: without_ID_entry_rows)
  qed
  have "set (Entries got) = entry_of_row ` set ?rows" unfolding e0 by simp
  then have e5: "\<forall>entry \<in> set (Entries got). workout_entries_id_seq d \<le> EntryID entry"
    using e_id_entry_rows by (auto simp: entry_of_row_def)
  from UpdateWorkout_success(2) [OF assms(1)] get e1 e2 e3 e4 e5 show ?thesis by blast
qed

text \<open>
  C5, as stated, fails: the workout 1 of \<open>stored_db\<close> is updated with the entries
  \<open>[lunge, squat]\<close>, whose \<open>OrderIndex\<close> values are 1 and 0. GetWorkoutByID then
  returns squat before lunge, under the new identities 4 and 3: not the list supplied,
  with or without the identities.
\<close>

theorem UpdateWorkout_retrieved_list_differs:
  "fst (UpdateWorkout no_faults stored_db reordered) = None
   \<and> Entries reordered = [lunge, squat]
   \<and> GetWorkoutByID no_faults (snd (UpdateWorkout no_faults stored_db reordered)) (ID reordered) =
       Inr (Some (reordered\<lparr>Entries := [squat\<lparr>EntryID := 4\<rparr>, lunge\<lparr>EntryID := 3\<rparr>]\<rparr>))
   \<and> [squat\<lparr>EntryID := 4\<rparr>, lunge\<lparr>EntryID := 3\<rparr>] \<noteq> [lunge, squat]
   \<and> map without_ID [squat\<lparr>EntryID := 4\<rparr>, lunge\<lparr>EntryID := 3\<rparr>] \<noteq> map without_ID [lunge, squat]"
  by (simp add: UpdateWorkout_def update_workout_def delete_entries_def insert_entry_def
      row_of_entry_def stored_db_def reordered_def leg_day_def squat_def lunge_def
      no_faults_def Let_def GetWorkoutByID_def select_workout_def select_entries_def
      entry_of_row_def without_ID_def)

text \<open>
  A shorter list: workout 1 has two entries and is updated with the one entry of
  \<open>leg_day\<close>; the read after it meets no failure and returns that one entry, under the
  new identity 3.
\<close>

theorem UpdateWorkout_then_GetWorkoutByID_witness:
  "UpdateWorkout no_faults stored_db (leg_day\<lparr>ID := 1\<rparr>) =
     (None, snd (UpdateWorkout no_faults stored_db (leg_day\<lparr>ID := 1\<rparr>)))
   \<and> length (select_entries stored_db 1) = 2
   \<and> queryrow_err no_faults = None \<and> query_err no_faults = None
   \<and> next_err no_faults 0 = None \<and> scan_err no_faults 0 = None
   \<and> GetWorkoutByID no_faults (snd (UpdateWorkout no_faults stored_db (leg_day\<lparr>ID := 1\<rparr>))) 1 =
       Inr (Some (leg_day\<lparr>ID := 1, Entries := [squat\<lparr>EntryID := 3\<rparr>]\<rparr>))
   \<and> map without_ID [squat\<lparr>EntryID := 3\<rparr>] = map without_ID (Entries (leg_day\<lparr>ID := 1\<rparr>))"
proof -
  let ?w = "leg_day\<lparr>ID := 1\<rparr>"
  let ?r = "UpdateWorkout no_faults stored_db ?w"
  have u: "?r = (None, snd ?r)"
    by (simp add: UpdateWorkout_def update_workout_def delete_entries_def insert_entry_def
        row_of_entry_def stored_db_def leg_day_def squat_def no_faults_def Let_def prod_eq_iff)
  have n: "length (select_entries stored_db 1) = 2"
    by (simp add: select_entries_def stored_db_def)
  have q: "queryrow_err no_faults = None" "query_err no_faults = None"
    by (simp_all add: no_faults_def)
  have k: "next_err no_faults 0 = None" "scan_err no_faults 0 = None"
    by (simp_all add: no_faults_def)
  have ks: "\<forall>k < length (Entries ?w). next_err no_faults k = None \<and> scan_err no_faults k = None"
    by (simp add: no_faults_def)
  have g: "GetWorkoutByID no_faults (snd ?r) 1 =
       Inr (Some (leg_day\<lparr>ID := 1, Entries := [squat\<lparr>EntryID := 3\<rparr>]\<rparr>))"
    by (simp add: UpdateWorkout_def update_workout_def delete_entries_def insert_entry_def
        row_of_entry_def stored_db_def leg_day_def squat_def no_faults_def Let_def
        GetWorkoutByID_def select_workout_def select_entries_def entry_of_row_def)
  have s: "sorted_wrt (<) (map OrderIndex (Entries ?w))" by (simp add: leg_day_def)
  from UpdateWorkout_then_GetWorkoutByID [OF u q ks] obtain got
    where "GetWorkoutByID no_faults (snd ?r) (ID ?w) = Inr (Some got)"
      and "sorted_wrt (<) (map OrderIndex (Entries ?w))
            \<longrightarrow> map without_ID (Entries got) = map without_ID (Entries ?w)"
    by blast
  with g s have "Entries got = [squat\<lparr>EntryID := 3\<rparr>]"
    and "map without_ID (Entries got) = map without_ID (Entries ?w)"
    by auto
  then have "map without_ID [squat\<lparr>EntryID := 3\<rparr>] = map without_ID (Entries ?w)"
    by simp
  with u n q k g show ?thesis by blast
qed

section \<open>Properties of HandleUpdateWorkoutByID\<close>

lemma apply_request_fields:
  "ID (apply_request req w) = ID w"
  "UserID (apply_request req w) = UserID w"
  "Title (apply_request req w) = (case req_Title req of Some t \<Rightarrow> t | None \<Rightarrow> Title w)"
  "Description (apply_request req w) =
     (case req_Description req of Some ds \<Rightarrow> ds | None \<Rightarrow> Description w)"
  "DurationMinutes (apply_request req w) =
     (case req_DurationMinutes req of Some dm \<Rightarrow> dm | None \<Rightarrow> DurationMinutes w)"
  "CaloriesBurned (apply_request req w) =
     (case req_CaloriesBurned req of Some cb \<Rightarrow> cb | None \<Rightarrow> CaloriesBurned w)"
  "Entries (apply_request req w) = (case req_Entries req of Some es \<Rightarrow> es | None \<Rightarrow> Entries w)"
  by (simp_all add: apply_request_def Let_def split: option.splits)

lemma HandleUpdateWorkoutByID_OK:
  assumes "HandleUpdateWorkoutByID f d (Inr i) (Inr req) currentUser =
             ([(StatusOK, WorkoutEnvelope (Some updated))], d')"
  shows "\<exists>loaded. GetWorkoutByID f d i = Inr (Some loaded)
           \<and> updated = apply_request req loaded
           \<and> UpdateWorkout f d updated = (None, d')"
  using assms
  by (auto simp: HandleUpdateWorkoutByID_def Let_def StatusOK_def StatusBadRequest_def
      StatusForbidden_def StatusNotFound_def StatusInternalServerError_def
      split: sum.splits option.splits current_user.splits if_splits prod.splits)

text \<open>
  C6. When the update handler answers OK with the workout \<open>updated\<close>, there is the
  workout \<open>loaded\<close> that GetWorkoutByID returned, \<open>updated\<close> is what UpdateWorkout was
  given, and each of \<open>Title\<close>, \<open>Description\<close>, \<open>DurationMinutes\<close>, \<open>CaloriesBurned\<close>
  and \<open>Entries\<close> of \<open>updated\<close> is the request's value when the request has the field,
  and the value of \<open>loaded\<close> when it has not; \<open>ID\<close> and \<open>UserID\<close> are those of
  \<open>loaded\<close>.
\<close>

theorem HandleUpdateWorkoutByID_partial_update:
  assumes "HandleUpdateWorkoutByID f d (Inr i) (Inr req) currentUser =
             ([(StatusOK, WorkoutEnvelope (Some updated))], d')"
  shows "\<exists>loaded. GetWorkoutByID f d i = Inr (Some loaded)
     \<and> UpdateWorkout f d updated = (None, d')
     \<and> Title updated = (case req_Title req of Some t \<Rightarrow> t | None \<Rightarrow> Title loaded)
     \<and> Description updated =
         (case req_Description req of Some ds \<Rightarrow> ds | None \<Rightarrow> Description loaded)
     \<and> DurationMinutes updated =
         (case req_DurationMinutes req of Some dm \<Rightarrow> dm | None \<Rightarrow> DurationMinutes loaded)
     \<and> CaloriesBurned updated =
         (case req_CaloriesBurned req of Some cb \<Rightarrow> cb | None \<Rightarrow> CaloriesBurned loaded)
     \<and> Entries updated = (case req_Entries req of Some es \<Rightarrow> es | None \<Rightarrow> Entries loaded)
     \<and> ID updated = ID loaded \<and> UserID updated = UserID loaded"
proof -
  from HandleUpdateWorkoutByID_OK [OF assms] obtain loaded
    where "GetWorkoutByID f d i = Inr (Some loaded)" "updated = apply_request req loaded"
      "UpdateWorkout f d updated = (None, d')" by blast
  then show ?thesis by (intro exI [of _ loaded]) (simp add: apply_request_fields)
qed


text \<open>
  The specification's example: a body with \<open>calories_burned: 320\<close> alone, sent by the
  owner of workout 1.
\<close>

theorem HandleUpdateWorkoutByID_partial_update_witness:
  "HandleUpdateWorkoutByID no_faults stored_db (Inr 1) (Inr only_calories) (User 1) =
     ([(StatusOK, WorkoutEnvelope (Some (leg_day\<lparr>ID := 1, CaloriesBurned := 320,
          Entries := [squat\<lparr>EntryID := 1\<rparr>, lunge\<lparr>EntryID := 2\<rparr>]\<rparr>)))],
      after_calories_update)
   \<and> GetWorkoutByID no_faults stored_db 1 =
       Inr (Some (leg_day\<lparr>ID := 1,
          Entries := [squat\<lparr>EntryID := 1\<rparr>, lunge\<lparr>EntryID := 2\<rparr>]\<rparr>))
   \<and> UpdateWorkout no_faults stored_db (leg_day\<lparr>ID := 1, CaloriesBurned := 320,
          Entries := [squat\<lparr>EntryID := 1\<rparr>, lunge\<lparr>EntryID := 2\<rparr>]\<rparr>) =
       (None, after_calories_update)"
proof -
  let ?h = "HandleUpdateWorkoutByID no_faults stored_db (Inr 1) (Inr only_calories) (User 1)"
  let ?u = "leg_day\<lparr>ID := 1, CaloriesBurned := 320,
          Entries := [squat\<lparr>EntryID := 1\<rparr>, lunge\<lparr>EntryID := 2\<rparr>]\<rparr>"
  have g: "GetWorkoutByID no_faults stored_db 1 =
       Inr (Some (leg_day\<lparr>ID := 1,
          Entries := [squat\<lparr>EntryID := 1\<rparr>, lunge\<lparr>EntryID := 2\<rparr>]\<rparr>))"
    by (simp add: GetWorkoutByID_def select_workout_def select_entries_def entry_of_row_def
        stored_db_def leg_day_def squat_def lunge_def no_faults_def Let_def)
  have h: "?h = ([(StatusOK, WorkoutEnvelope (Some ?u))], after_calories_update)"
    by (simp add: HandleUpdateWorkoutByID_def GetWorkoutByID_def select_entries_def
        entry_of_row_def apply_request_def only_calories_def GetWorkoutOwner_def
        select_workout_def UpdateWorkout_def update_workout_def delete_entries_def
        insert_entry_def row_of_entry_def stored_db_def leg_day_def squat_def lunge_def
        no_faults_def Let_def after_calories_update_def)
  from HandleUpdateWorkoutByID_partial_update [OF h]
  have "UpdateWorkout no_faults stored_db ?u = (None, after_calories_update)" by blast
  with g h show ?thesis by blast
qed

section \<open>Properties of HandleCreateWorkout\<close>





section \<open>Where the code departs from its documentation\<close>

text \<open>
  C1 (the delete handler). User 2 asks to delete workout 1, which user 1 owns. The
  handler writes the forbidden response and then goes on: \<open>DeleteWorkout\<close> runs, the
  workout and its entries are gone, and a second response with status OK follows.
\<close>

theorem HandleDeleteWorkoutByID_non_owner_deletes:
  "HandleDeleteWorkoutByID no_faults stored_db (Inr 1) (User 2) =
     ([(StatusForbidden, ErrorEnvelope ''you are not authorized to update this workout''),
       (StatusOK, WorkoutIDEnvelope 1)],
      stored_db\<lparr>workouts := [], workout_entries := []\<rparr>)"
  by (simp add: HandleDeleteWorkoutByID_def GetWorkoutOwner_def DeleteWorkout_def
      select_workout_def stored_db_def no_faults_def)

text \<open>
  Whoever the owner is, the database after the delete handler is the one \<open>DeleteWorkout\<close>
  leaves.
\<close>

lemma HandleDeleteWorkoutByID_ignores_owner:
  "GetWorkoutOwner f d i = Inr workoutOwner \<Longrightarrow>
     snd (HandleDeleteWorkoutByID f d (Inr i) (User uid)) = snd (DeleteWorkout f d i)"
  by (simp add: HandleDeleteWorkoutByID_def Let_def split: prod.splits option.splits)

text \<open>
  The update handler does stop there: a user who is not the owner gets the forbidden
  response once the workout is loaded and the body decoded, and the database is never
  written.
\<close>

lemma HandleUpdateWorkoutByID_non_owner:
  assumes "GetWorkoutOwner f d i = Inr workoutOwner" and "workoutOwner \<noteq> uid"
  shows "snd (HandleUpdateWorkoutByID f d (Inr i) decoded (User uid)) = d"
    and "GetWorkoutByID f d i = Inr (Some loaded) \<Longrightarrow>
         HandleUpdateWorkoutByID f d (Inr i) (Inr req) (User uid) =
           ([(StatusForbidden,
              ErrorEnvelope ''you are not authorized to update this workout'')], d)"
  using assms
  by (auto simp: HandleUpdateWorkoutByID_def split: sum.splits option.splits)

text \<open>
  C2. CreateWorkout on the empty database with the example request, whose entry has ID 0:
  the returned workout has ID 1, the row of the entry has the identity 1, and the entry
  in the returned workout still has ID 0.
\<close>

theorem CreateWorkout_returned_entry_keeps_ID:
  "fst (CreateWorkout no_faults empty_db leg_day) = Inr (leg_day\<lparr>ID := 1\<rparr>)
   \<and> map EntryID (Entries (leg_day\<lparr>ID := 1\<rparr>)) = [0]
   \<and> map e_id (workout_entries (snd (CreateWorkout no_faults empty_db leg_day))) = [1]"
  by (simp add: CreateWorkout_def insert_workout_def insert_entry_def row_of_entry_def
      empty_db_def leg_day_def squat_def no_faults_def Let_def)

text \<open>
  The header lookup: with no matching row (and no other failure of the query) the result
  is \<open>(nil, nil)\<close>; and every error GetWorkoutByID returns is the error of one of its
  database calls, never \<open>sql.ErrNoRows\<close> from the header lookup.
\<close>

lemma GetWorkoutByID_no_row:
  "queryrow_err f = None \<Longrightarrow> select_workout d i = None \<Longrightarrow> GetWorkoutByID f d i = Inr None"
  by (simp add: GetWorkoutByID_def)

lemma scan_rows_error: "scan_rows f n rs acc = Inl e \<Longrightarrow> \<exists>k. scan_err f k = Some e"
  by (induction rs arbitrary: n acc) (auto split: option.splits)

lemma GetWorkoutByID_error:
  assumes "GetWorkoutByID f d i = Inl e"
  shows "(queryrow_err f = Some e \<and> e \<noteq> ErrNoRows) \<or> query_err f = Some e
         \<or> (\<exists>k. scan_err f k = Some e)"
  using assms scan_rows_error
  by (fastforce simp: GetWorkoutByID_def Let_def split: option.splits sum.splits if_splits)

text \<open>
  C7. Workout 1 has the entry rows 1 and 2. Fetching the second row fails
  (\<open>rows.Next()\<close> returns false, the error is in \<open>rows.Err()\<close>): GetWorkoutByID returns
  the workout with the first entry alone and a nil error.
\<close>

theorem GetWorkoutByID_iteration_error_dropped:
  "next_err iteration_fails 1 = Some (DBError ''unexpected EOF'')
   \<and> map e_id (select_entries stored_db 1) = [1, 2]
   \<and> GetWorkoutByID iteration_fails stored_db 1 =
       Inr (Some (leg_day\<lparr>ID := 1, Entries := [squat\<lparr>EntryID := 1\<rparr>]\<rparr>))"
  by (simp add: GetWorkoutByID_def select_workout_def select_entries_def entry_of_row_def
      stored_db_def iteration_fails_def no_faults_def leg_day_def squat_def Let_def)

end
